theory Spec2Isabelle
  imports Main "HOL-Library.AList" "HOL-Library.Countable"
begin

section \<open>Python values used by \<open>telegram/inline/inlinekeyboardmarkup.py\<close>\<close>

text \<open>
  The exceptions the module can raise: the two it raises itself in \<open>add_button\<close>
  (\<open>IndexError\<close>, \<open>AttributeError\<close>) and the ones raised by the built-in list
  subscript (\<open>IndexError\<close>) and dict subscript (\<open>KeyError\<close>).
\<close>

datatype error = IndexError | AttributeError | KeyError

text \<open>
  \<open>xs[i]\<close> on a Python list: an index in \<open>[-len, len)\<close> names a position, a negative
  one counting from the end; any other index raises \<open>IndexError\<close>. The model returns
  the position, so that the caller can read the element there or replace it.
\<close>

definition subscript :: "'a list \<Rightarrow> int \<Rightarrow> error + nat" where
  "subscript xs i =
     (if 0 \<le> i \<and> i < int (length xs) then Inr (nat i)
      else if - int (length xs) \<le> i \<and> i < 0 then Inr (nat (int (length xs) + i))
      else Inl IndexError)"

text \<open>
  \<open>xs.insert(i, x)\<close> on a Python list never raises: a negative index has the length
  added once and is then floored at 0, an index past the end is cut to the length.
\<close>

definition list_insert :: "'a list \<Rightarrow> int \<Rightarrow> 'a \<Rightarrow> 'a list" where
  "list_insert xs i x =
     (let n = int (length xs);
          w = (if i < 0 then (if i + n < 0 then 0 else i + n) else i);
          w = (if w > n then n else w)
      in take (nat w) xs @ x # drop (nat w) xs)"

section \<open>The keyboard object\<close>

text \<open>
  An \<open>InlineKeyboardMarkup\<close> has one attribute, \<open>inline_keyboard\<close>, a list of rows of
  buttons. The button class lives outside this module; it is a type parameter here.
  Rows are held by value: the model is of keyboards whose rows are distinct list objects,
  as the data model of the specification requires (a grid owns its rows exclusively).
\<close>

record 'b InlineKeyboardMarkup =
  inline_keyboard :: "'b list list"

text \<open>\<open>__init__\<close>: only an omitted argument (\<open>None\<close>) is replaced by \<open>[[]]\<close>.\<close>

definition init :: "'b list list option \<Rightarrow> 'b InlineKeyboardMarkup" where
  "init arg = \<lparr>inline_keyboard = (case arg of None \<Rightarrow> [[]] | Some rows \<Rightarrow> rows)\<rparr>"

section \<open>\<open>add_button\<close>\<close>

definition interval_value :: "int \<Rightarrow> int \<Rightarrow> int \<Rightarrow> int" where
  "interval_value lower upper v = min (max lower v) upper"

text \<open>
  The method mutates the object and returns it, or raises. The model returns the outcome
  (\<open>Inl\<close> the exception, \<open>Inr ()\<close> a normal return of \<open>self\<close>) together with the
  object as it is when the call ends, so that what a failing call leaves behind is part
  of the result. In the first branch with \<open>insert_column\<close> the source subscripts the
  rows twice: with the clamped row index for the row that receives the button and with
  \<open>from_row\<close> itself for the row whose length bounds the column.
\<close>

definition add_button ::
  "'b \<Rightarrow> int option \<Rightarrow> int option \<Rightarrow> int option \<Rightarrow> 'b InlineKeyboardMarkup
     \<Rightarrow> (error + unit) \<times> 'b InlineKeyboardMarkup" where
  "add_button button from_row insert_row insert_column self =
     (let rows = inline_keyboard self;
          max_row = int (length rows) - 1
      in case (from_row, insert_row) of
        (Some fr, None) \<Rightarrow>
          if fr > max_row then (Inl IndexError, self)
          else (case insert_column of
            Some ic \<Rightarrow>
              (case subscript rows (interval_value 0 max_row fr) of
                 Inl e \<Rightarrow> (Inl e, self)
               | Inr t \<Rightarrow>
                  (case subscript rows fr of
                     Inl e \<Rightarrow> (Inl e, self)
                   | Inr s \<Rightarrow>
                      (Inr (), self\<lparr>inline_keyboard :=
                         rows[t := list_insert (rows ! t)
                                     (interval_value 0 (int (length (rows ! s))) ic) button]\<rparr>)))
          | None \<Rightarrow>
              (case subscript rows (interval_value 0 max_row fr) of
                 Inl e \<Rightarrow> (Inl e, self)
               | Inr t \<Rightarrow> (Inr (), self\<lparr>inline_keyboard := rows[t := rows ! t @ [button]]\<rparr>)))
      | (None, Some ir) \<Rightarrow>
          (Inr (), self\<lparr>inline_keyboard :=
             list_insert rows (interval_value 0 (max_row + 1) ir) [button]\<rparr>)
      | (None, None) \<Rightarrow>
          (case insert_column of
            Some ic \<Rightarrow>
              (case subscript rows (- 1) of
                 Inl e \<Rightarrow> (Inl e, self)
               | Inr t \<Rightarrow>
                  (case subscript rows (- 1) of
                     Inl e \<Rightarrow> (Inl e, self)
                   | Inr s \<Rightarrow>
                      (Inr (), self\<lparr>inline_keyboard :=
                         rows[t := list_insert (rows ! t)
                                     (interval_value 0 (int (length (rows ! s))) ic) button]\<rparr>)))
          | None \<Rightarrow>
              (case subscript rows (- 1) of
                 Inl e \<Rightarrow> (Inl e, self)
               | Inr t \<Rightarrow> (Inr (), self\<lparr>inline_keyboard := rows[t := rows ! t @ [button]]\<rparr>)))
      | (Some fr, Some ir) \<Rightarrow> (Inl AttributeError, self))"

section \<open>The construction shortcuts\<close>

definition from_button :: "'b \<Rightarrow> 'b InlineKeyboardMarkup" where
  "from_button button = init (Some [[button]])"

definition from_row :: "'b list \<Rightarrow> 'b InlineKeyboardMarkup" where
  "from_row button_row = init (Some [button_row])"

definition from_column :: "'b list \<Rightarrow> 'b InlineKeyboardMarkup" where
  "from_column button_column = init (Some (map (\<lambda>button. [button]) button_column))"

section \<open>Serialisation\<close>

text \<open>
  A \<open>JSONDict\<close> is a Python dict with string keys, kept here as an association list
  in insertion order: \<open>map_of\<close> is the lookup, \<open>AList.update\<close> the store
  \<open>data[key] = value\<close>, and the empty list is the empty (falsy) dict. The serialised
  form of a button is a type parameter \<open>'j\<close>, and the values of the dict are typed as
  the arrays of arrays of serialised buttons that \<open>de_json\<close> iterates; the method reads
  no other key.
\<close>

type_synonym 'j JSONDict = "(string \<times> 'j list list) list"

text \<open>
  \<open>to_dict\<close>. The button's own \<open>to_dict\<close> and the dict that \<open>super().to_dict()\<close>
  returns are not part of this module and are parameters. The loop appends one serialised
  row per row of the keyboard to the list stored under \<open>inline_keyboard\<close>.
\<close>

fun to_dict_rows :: "('b \<Rightarrow> 'j) \<Rightarrow> 'j list list \<Rightarrow> 'b list list \<Rightarrow> 'j list list" where
  "to_dict_rows button_to_dict acc [] = acc"
| "to_dict_rows button_to_dict acc (row # rest) =
     to_dict_rows button_to_dict (acc @ [map button_to_dict row]) rest"

definition to_dict ::
  "('b \<Rightarrow> 'j) \<Rightarrow> 'j JSONDict \<Rightarrow> 'b InlineKeyboardMarkup \<Rightarrow> 'j JSONDict" where
  "to_dict button_to_dict super_to_dict self =
     AList.update ''inline_keyboard''
       (to_dict_rows button_to_dict [] (inline_keyboard self)) super_to_dict"

text \<open>
  Modelled from the spec: \<open>parse_data\<close>, a helper of the base class that is not among
  the sources. The specification has the deserialising constructor read the mapping it is
  given and answer "no value" for an absent or empty one, which \<open>de_json\<close> itself tests
  right after the call; the helper is taken to hand its argument on.
\<close>

definition parse_data :: "'j JSONDict option \<Rightarrow> 'j JSONDict option" where
  "parse_data data = data"

text \<open>
  \<open>de_json\<close>. The button's own \<open>de_json\<close> is a parameter that returns a button or
  \<open>None\<close>, as the interface of the specification has it (the \<open>bot\<close> argument is only
  handed on to it). The test \<open>if btn\<close> is read as \<open>btn is not None\<close>: a button object
  defines no truth value of its own. \<open>data['inline_keyboard']\<close> is a plain dict
  subscript and raises \<open>KeyError\<close> on a missing key.
\<close>

fun de_json_row :: "('j \<Rightarrow> 'b option) \<Rightarrow> 'b list \<Rightarrow> 'j list \<Rightarrow> 'b list" where
  "de_json_row button_de_json tmp [] = tmp"
| "de_json_row button_de_json tmp (col # rest) =
     (case button_de_json col of
        Some btn \<Rightarrow> de_json_row button_de_json (tmp @ [btn]) rest
      | None \<Rightarrow> de_json_row button_de_json tmp rest)"

fun de_json_rows :: "('j \<Rightarrow> 'b option) \<Rightarrow> 'b list list \<Rightarrow> 'j list list \<Rightarrow> 'b list list" where
  "de_json_rows button_de_json keyboard [] = keyboard"
| "de_json_rows button_de_json keyboard (row # rest) =
     de_json_rows button_de_json (keyboard @ [de_json_row button_de_json [] row]) rest"

definition de_json ::
  "('j \<Rightarrow> 'b option) \<Rightarrow> 'j JSONDict option \<Rightarrow> error + 'b InlineKeyboardMarkup option" where
  "de_json button_de_json data =
     (case parse_data data of
        None \<Rightarrow> Inr None
      | Some d \<Rightarrow>
          if d = [] then Inr None
          else (case map_of d ''inline_keyboard'' of
                  None \<Rightarrow> Inl KeyError
                | Some rows \<Rightarrow> Inr (Some (init (Some (de_json_rows button_de_json [] rows))))))"

section \<open>Equality and hash\<close>

text \<open>
  The right-hand side of a comparison is another keyboard or an object of some other
  class. The button's \<open>__eq__\<close> is a parameter \<open>beq\<close>, and \<open>button != x\<close> is its
  negation. Every subscript of the source is kept, with its \<open>IndexError\<close>.
\<close>

datatype ('b, 'o) comparand = Markup "'b InlineKeyboardMarkup" | Unrelated 'o

text \<open>
  Modelled from the spec: \<open>__eq__\<close> of the base class, not among the sources, which the
  method calls when the other object is not a keyboard. The specification has the
  comparison fall back to "not equal" for every comparand that is not a grid.
\<close>

definition super_eq :: "'b InlineKeyboardMarkup \<Rightarrow> 'o \<Rightarrow> bool" where
  "super_eq self other = False"

text \<open>
  The inner loop over \<open>enumerate(row)\<close>, from position \<open>jdx\<close> on: \<open>Inr False\<close> is the
  \<open>return False\<close> of the source, \<open>Inr True\<close> the end of the loop.
\<close>

fun eq_buttons ::
  "('b \<Rightarrow> 'b \<Rightarrow> bool) \<Rightarrow> 'b list list \<Rightarrow> nat \<Rightarrow> nat \<Rightarrow> 'b list \<Rightarrow> error + bool" where
  "eq_buttons beq other idx jdx [] = Inr True"
| "eq_buttons beq other idx jdx (button # rest) =
     (case subscript other (int idx) of
        Inl e \<Rightarrow> Inl e
      | Inr p \<Rightarrow>
         (case subscript (other ! p) (int jdx) of
            Inl e \<Rightarrow> Inl e
          | Inr q \<Rightarrow>
             if \<not> beq button (other ! p ! q) then Inr False
             else eq_buttons beq other idx (Suc jdx) rest))"

text \<open>The outer loop over \<open>enumerate(self.inline_keyboard)\<close>, from position \<open>idx\<close> on.\<close>

fun eq_rows ::
  "('b \<Rightarrow> 'b \<Rightarrow> bool) \<Rightarrow> 'b list list \<Rightarrow> nat \<Rightarrow> 'b list list \<Rightarrow> error + bool" where
  "eq_rows beq other idx [] = Inr True"
| "eq_rows beq other idx (row # rest) =
     (case subscript other (int idx) of
        Inl e \<Rightarrow> Inl e
      | Inr p \<Rightarrow>
         if length row \<noteq> length (other ! p) then Inr False
         else (case eq_buttons beq other idx 0 row of
                 Inl e \<Rightarrow> Inl e
               | Inr found \<Rightarrow>
                  if \<not> found then Inr False else eq_rows beq other (Suc idx) rest))"

definition markup_eq ::
  "('b \<Rightarrow> 'b \<Rightarrow> bool) \<Rightarrow> 'b InlineKeyboardMarkup \<Rightarrow> ('b, 'o) comparand \<Rightarrow> error + bool" where
  "markup_eq beq self other =
     (case other of
        Markup m \<Rightarrow>
          if length (inline_keyboard self) \<noteq> length (inline_keyboard m) then Inr False
          else eq_rows beq (inline_keyboard m) 0 (inline_keyboard self)
      | Unrelated x \<Rightarrow> Inr (super_eq self x))"

text \<open>
  \<open>__hash__\<close>: the hash of the tuple of the tuples of the buttons. The built-in hash of
  a tuple is a function of the hashes of its elements in their order; it is the parameter
  \<open>tuple_hash\<close>, and the button's \<open>__hash__\<close> the parameter \<open>button_hash\<close>.
\<close>

definition markup_hash ::
  "(int list \<Rightarrow> int) \<Rightarrow> ('b \<Rightarrow> int) \<Rightarrow> 'b InlineKeyboardMarkup \<Rightarrow> int" where
  "markup_hash tuple_hash button_hash self =
     tuple_hash (map (\<lambda>row. tuple_hash (map button_hash row)) (inline_keyboard self))"

section \<open>Merging another keyboard\<close>

text \<open>
  Modelled from the spec: \<open>add_from_markup\<close>, which the tests call and the sources do
  not contain. The specification has it place the rows of the other grid contiguously at
  the insertion index, the rows of this grid from that index on moving down, with every
  row kept as it is. The index is a position \<open>0 .. len(rows)\<close>.
\<close>

definition add_from_markup ::
  "'b InlineKeyboardMarkup \<Rightarrow> nat \<Rightarrow> 'b InlineKeyboardMarkup \<Rightarrow> 'b InlineKeyboardMarkup" where
  "add_from_markup markup index self =
     self\<lparr>inline_keyboard :=
       take index (inline_keyboard self) @ inline_keyboard markup
       @ drop index (inline_keyboard self)\<rparr>"

section \<open>Notions of the specification\<close>

text \<open>The clamp of the specification: a value outside \<open>[0, n]\<close> goes to the nearest bound.\<close>

definition clamp_to :: "nat \<Rightarrow> int \<Rightarrow> nat" where
  "clamp_to n v = (if v < 0 then 0 else if v > int n then n else nat v)"

text \<open>
  A button put into a row the way the specification words it: at the column clamped into
  \<open>[0, len(row)]\<close> when a column is given, at the end otherwise.
\<close>

definition put_in_row :: "'b \<Rightarrow> int option \<Rightarrow> 'b list \<Rightarrow> 'b list" where
  "put_in_row button insert_column row =
     (case insert_column of
        None \<Rightarrow> row @ [button]
      | Some c \<Rightarrow> take (clamp_to (length row) c) row @ button # drop (clamp_to (length row) c) row)"

section \<open>Helper facts\<close>

lemma interval_value_clamp_to:
  "interval_value 0 (int n) v = int (clamp_to n v)"
  by (simp add: interval_value_def clamp_to_def)

lemma clamp_to_le: "clamp_to n v \<le> n"
  unfolding clamp_to_def by (cases "v < 0"; cases "v > int n"; simp; arith)

lemma list_insert_in_range:
  "k \<le> length xs \<Longrightarrow> list_insert xs (int k) x = take k xs @ x # drop k xs"
  by (simp add: list_insert_def Let_def)

lemma list_insert_clamp_to:
  "list_insert xs (int (clamp_to (length xs) v)) x =
     take (clamp_to (length xs) v) xs @ x # drop (clamp_to (length xs) v) xs"
  by (rule list_insert_in_range) (rule clamp_to_le)

lemma add_button_insert_row_eq:
  "add_button button None (Some i) ic self =
     (Inr (), self\<lparr>inline_keyboard :=
        take (clamp_to (length (inline_keyboard self)) i) (inline_keyboard self)
        @ [button] # drop (clamp_to (length (inline_keyboard self)) i) (inline_keyboard self)\<rparr>)"
proof -
  have "int (length (inline_keyboard self)) - 1 + 1 = int (length (inline_keyboard self))"
    by simp
  then show ?thesis
    unfolding add_button_def Let_def
    by (simp add: interval_value_clamp_to list_insert_clamp_to)
qed

lemma subscript_clamped:
  assumes "rows \<noteq> []" and "r \<le> int (length rows) - 1"
  shows "subscript rows (interval_value 0 (int (length rows) - 1) r)
           = Inr (clamp_to (length rows - 1) r)"
proof -
  from assms(1) have pos: "0 < length rows" by simp
  then have m: "int (length rows) - 1 = int (length rows - 1)" by arith
  have "clamp_to (length rows - 1) r < length rows"
    using clamp_to_le [of "length rows - 1" r] pos by arith
  then show ?thesis
    unfolding m interval_value_clamp_to by (simp add: subscript_def)
qed

lemma subscript_in_range:
  assumes "0 \<le> r" and "r \<le> int (length rows) - 1"
  shows "subscript rows r = Inr (nat r)" and "clamp_to (length rows - 1) r = nat r"
  using assms by (auto simp: subscript_def clamp_to_def)

lemma subscript_last:
  assumes "rows \<noteq> []"
  shows "subscript rows (- 1) = Inr (length rows - 1)"
  using assms by (cases rows) (simp_all add: subscript_def)

lemma subscript_empty: "subscript [] i = Inl IndexError"
  by (simp add: subscript_def)

lemma list_insert_interval_value:
  "list_insert row (interval_value 0 (int (length row)) c) button
     = put_in_row button (Some c) row"
  by (simp add: interval_value_clamp_to list_insert_clamp_to put_in_row_def)

lemma add_button_both_set:
  "add_button button (Some r) (Some i) ic self = (Inl AttributeError, self)"
  by (simp add: add_button_def Let_def)

lemma add_button_row_too_large:
  "r > int (length (inline_keyboard self)) - 1
     \<Longrightarrow> add_button button (Some r) None ic self = (Inl IndexError, self)"
  by (simp add: add_button_def Let_def)

lemma add_button_from_row_append:
  assumes "inline_keyboard self \<noteq> []" and "r \<le> int (length (inline_keyboard self)) - 1"
  shows "add_button button (Some r) None None self =
           (Inr (), self\<lparr>inline_keyboard := (inline_keyboard self)
              [clamp_to (length (inline_keyboard self) - 1) r :=
                 put_in_row button None
                   (inline_keyboard self ! clamp_to (length (inline_keyboard self) - 1) r)]\<rparr>)"
  using assms(2) subscript_clamped [OF assms]
  by (simp add: add_button_def put_in_row_def Let_def)

lemma add_button_from_row_column:
  assumes "0 \<le> r" and "r \<le> int (length (inline_keyboard self)) - 1"
  shows "add_button button (Some r) None (Some c) self =
           (Inr (), self\<lparr>inline_keyboard := (inline_keyboard self)
              [clamp_to (length (inline_keyboard self) - 1) r :=
                 put_in_row button (Some c)
                   (inline_keyboard self ! clamp_to (length (inline_keyboard self) - 1) r)]\<rparr>)"
proof -
  from assms have ne: "inline_keyboard self \<noteq> []" by auto
  show ?thesis
    using assms(2) subscript_clamped [OF ne assms(2)] subscript_in_range [OF assms]
    by (simp add: add_button_def list_insert_interval_value Let_def)
qed

lemma add_button_last_row:
  assumes "inline_keyboard self \<noteq> []"
  shows "add_button button None None ic self =
           (Inr (), self\<lparr>inline_keyboard := (inline_keyboard self)
              [length (inline_keyboard self) - 1 :=
                 put_in_row button ic (last (inline_keyboard self))]\<rparr>)"
  using subscript_last [OF assms] assms
  by (cases ic) (simp_all add: add_button_def list_insert_interval_value put_in_row_def
                   last_conv_nth Let_def)

lemma length_list_insert: "length (list_insert xs i x) = Suc (length xs)"
  by (simp add: list_insert_def Let_def)

lemma add_button_length_ge:
  "length (inline_keyboard self)
     \<le> length (inline_keyboard (snd (add_button button fr ir ic self)))"
  by (simp add: add_button_def Let_def length_list_insert split: option.splits sum.splits)

lemma add_button_returns_nonempty:
  assumes "fst (add_button button fr ir ic self) = Inr ()"
  shows "inline_keyboard (snd (add_button button fr ir ic self)) \<noteq> []"
proof (cases "inline_keyboard self = []")
  case True
  with assms show ?thesis
    by (simp add: add_button_def Let_def subscript_empty list_insert_def
             split: option.splits if_splits)
next
  case False
  with add_button_length_ge [of self button fr ir ic] show ?thesis
    by (cases "inline_keyboard (snd (add_button button fr ir ic self))") simp_all
qed

lemma to_dict_rows_map:
  "to_dict_rows f acc rows = acc @ map (map f) rows"
  by (induction rows arbitrary: acc) simp_all

lemma de_json_row_map_filter:
  "de_json_row bde tmp row = tmp @ List.map_filter bde row"
  by (induction row arbitrary: tmp) (simp_all add: map_filter_simps split: option.splits)

lemma de_json_rows_map:
  "de_json_rows bde keyboard rows = keyboard @ map (List.map_filter bde) rows"
  by (induction rows arbitrary: keyboard) (simp_all add: de_json_row_map_filter)

lemma map_of_to_dict:
  "map_of (to_dict bto base g) ''inline_keyboard'' = Some (map (map bto) (inline_keyboard g))"
  by (simp add: to_dict_def update_conv' to_dict_rows_map)

lemma de_json_present:
  "map_of d ''inline_keyboard'' = Some rows \<Longrightarrow>
     de_json bde (Some d) = Inr (Some \<lparr>inline_keyboard = map (List.map_filter bde) rows\<rparr>)"
  by (cases d) (simp_all add: de_json_def parse_data_def init_def de_json_rows_map)

lemma eq_buttons_suffix:
  assumes "idx < length other" and "other ! idx = pre @ suf" and "length bs = length suf"
  shows "eq_buttons beq other idx (length pre) bs = Inr (list_all2 beq bs suf)"
  using assms
proof (induction bs arbitrary: pre suf)
  case Nil
  then show ?case by simp
next
  case (Cons button rest)
  then obtain x suf' where suf: "suf = x # suf'" by (cases suf) simp_all
  have s1: "subscript other (int idx) = Inr idx"
    using Cons.prems(1) by (simp add: subscript_def)
  have s2: "subscript (other ! idx) (int (length pre)) = Inr (length pre)"
    using Cons.prems(2) suf by (simp add: subscript_def)
  have at: "other ! idx ! length pre = x"
    using Cons.prems(2) suf by simp
  have "eq_buttons beq other idx (length (pre @ [x])) rest = Inr (list_all2 beq rest suf')"
    using Cons.prems suf by (intro Cons.IH) simp_all
  then show ?case
    using s1 s2 at suf by simp
qed

lemma eq_buttons_row:
  assumes "idx < length other" and "length row = length (other ! idx)"
  shows "eq_buttons beq other idx 0 row = Inr (list_all2 beq row (other ! idx))"
  using eq_buttons_suffix [of idx other "[]" "other ! idx" row beq] assms by simp

lemma eq_rows_suffix:
  assumes "other = pre @ suf" and "length rs = length suf"
  shows "eq_rows beq other (length pre) rs = Inr (list_all2 (list_all2 beq) rs suf)"
  using assms
proof (induction rs arbitrary: pre suf)
  case Nil
  then show ?case by simp
next
  case (Cons row rest)
  then obtain x suf' where suf: "suf = x # suf'" by (cases suf) simp_all
  have lt: "length pre < length other" using Cons.prems(1) suf by simp
  have s1: "subscript other (int (length pre)) = Inr (length pre)"
    using lt by (simp add: subscript_def)
  have at: "other ! length pre = x"
    using Cons.prems(1) suf by simp
  have rec: "eq_rows beq other (length (pre @ [x])) rest = Inr (list_all2 (list_all2 beq) rest suf')"
    using Cons.prems suf by (intro Cons.IH) simp_all
  show ?case
  proof (cases "length row = length x")
    case True
    with eq_buttons_row [OF lt, of row beq] at
    have "eq_buttons beq other (length pre) 0 row = Inr (list_all2 beq row x)" by simp
    with s1 at True rec suf show ?thesis by simp
  next
    case False
    then have "\<not> list_all2 beq row x" by (auto dest: list_all2_lengthD)
    with s1 at False suf show ?thesis by simp
  qed
qed

lemma markup_eq_list_all2:
  "markup_eq beq a (Markup b)
     = Inr (list_all2 (list_all2 beq) (inline_keyboard a) (inline_keyboard b))"
proof (cases "length (inline_keyboard a) = length (inline_keyboard b)")
  case True
  with eq_rows_suffix [of "inline_keyboard b" "[]" "inline_keyboard b" "inline_keyboard a" beq]
  show ?thesis by (simp add: markup_eq_def)
next
  case False
  then have "\<not> list_all2 (list_all2 beq) (inline_keyboard a) (inline_keyboard b)"
    by (auto dest: list_all2_lengthD)
  with False show ?thesis by (simp add: markup_eq_def)
qed

lemma list_all2_map_hash:
  assumes "\<forall>x y. beq x y \<longrightarrow> button_hash x = button_hash y"
    and "list_all2 beq row row'"
  shows "map button_hash row = map button_hash row'"
  using assms(2) by (induction rule: list_all2_induct) (use assms(1) in auto)

lemma list_all2_rows_hash:
  assumes "\<forall>x y. beq x y \<longrightarrow> button_hash x = button_hash y"
    and "list_all2 (list_all2 beq) rows rows'"
  shows "map (\<lambda>row. tuple_hash (map button_hash row)) rows
           = map (\<lambda>row. tuple_hash (map button_hash row)) rows'"
  using assms(2)
  by (induction rule: list_all2_induct) (auto dest: list_all2_map_hash [OF assms(1)])

lemma inj_hash_rows:
  assumes "inj tuple_hash"
    and "map (\<lambda>row. tuple_hash (map button_hash row)) rows
           = map (\<lambda>row. tuple_hash (map button_hash row)) rows'"
  shows "map (map button_hash) rows = map (map button_hash) rows'"
proof -
  have "map tuple_hash (map (map button_hash) rows)
          = map tuple_hash (map (map button_hash) rows')"
    unfolding map_map comp_def using assms(2) .
  then show ?thesis using assms(1) by (rule map_injective)
qed

lemma round_trip_row:
  assumes "\<forall>b \<in> set row. (case bde (bto b) of Some b' \<Rightarrow> beq b b' | None \<Rightarrow> False)"
  shows "list_all2 beq row (List.map_filter bde (map bto row))"
  using assms by (induction row) (auto simp: map_filter_simps split: option.splits)

lemma round_trip_row_back:
  assumes "\<forall>b \<in> set row. (case bde (bto b) of Some b' \<Rightarrow> beq b' b | None \<Rightarrow> False)"
  shows "list_all2 beq (List.map_filter bde (map bto row)) row"
  using assms by (induction row) (auto simp: map_filter_simps split: option.splits)

section \<open>Claims\<close>

text \<open>
  C1, as the code has it. On a keyboard with at least one row, and leaving aside the calls
  that set \<open>insert_column\<close> together with a negative \<open>from_row\<close>, a call of
  \<open>add_button\<close> fails exactly when \<open>from_row\<close> is set, \<open>insert_row\<close> is unset and
  \<open>from_row > len(rows) - 1\<close> (an \<open>IndexError\<close>), or when \<open>from_row\<close> and
  \<open>insert_row\<close> are both set (an \<open>AttributeError\<close>). A failing call leaves the object
  as it was. Every other call returns normally with its indices clamped: a negative
  \<open>from_row\<close> names row 0, \<open>insert_row\<close> is clamped into \<open>[0, len(rows)]\<close>, and
  \<open>insert_column\<close> into \<open>[0, len(row)]\<close> of the row that receives the button.
\<close>

theorem add_button_failures:
  assumes "inline_keyboard self \<noteq> []"
    and "\<forall>r. fromRow = Some r \<and> insertRow = None \<and> insertColumn \<noteq> None \<longrightarrow> 0 \<le> r"
  shows
    "(let rows = inline_keyboard self;
          range_violation =
            (\<exists>r. fromRow = Some r \<and> insertRow = None \<and> r > int (length rows) - 1);
          invalid_argument = (fromRow \<noteq> None \<and> insertRow \<noteq> None);
          (outcome, self') = add_button button fromRow insertRow insertColumn self;
          rows' = inline_keyboard self'
      in (outcome \<noteq> Inr () \<longleftrightarrow> range_violation \<or> invalid_argument)
         \<and> (range_violation \<longrightarrow> outcome = Inl IndexError)
         \<and> (invalid_argument \<longrightarrow> outcome = Inl AttributeError)
         \<and> (outcome \<noteq> Inr () \<longrightarrow> self' = self)
         \<and> (\<forall>r. fromRow = Some r \<and> insertRow = None \<and> r \<le> int (length rows) - 1 \<longrightarrow>
               rows' = rows[clamp_to (length rows - 1) r :=
                         put_in_row button insertColumn (rows ! clamp_to (length rows - 1) r)])
         \<and> (\<forall>i. fromRow = None \<and> insertRow = Some i \<longrightarrow>
               rows' = take (clamp_to (length rows) i) rows
                       @ [button] # drop (clamp_to (length rows) i) rows)
         \<and> (fromRow = None \<and> insertRow = None \<longrightarrow>
               rows' = rows[length rows - 1 := put_in_row button insertColumn (last rows)]))"
proof (cases fromRow)
  case no_from: None
  show ?thesis
  proof (cases insertRow)
    case None
    with no_from add_button_last_row [OF assms(1), of button insertColumn]
    show ?thesis by (simp add: Let_def)
  next
    case (Some i)
    with no_from add_button_insert_row_eq [of button i insertColumn self]
    show ?thesis by (simp add: Let_def)
  qed
next
  case some_from: (Some r)
  show ?thesis
  proof (cases insertRow)
    case (Some i)
    with some_from add_button_both_set [of button r i insertColumn self]
    show ?thesis by (simp add: Let_def)
  next
    case no_insert: None
    show ?thesis
    proof (cases "r > int (length (inline_keyboard self)) - 1")
      case True
      with some_from no_insert add_button_row_too_large [OF True, of button insertColumn]
      show ?thesis by (simp add: Let_def)
    next
      case False
      then have le: "r \<le> int (length (inline_keyboard self)) - 1" by simp
      show ?thesis
      proof (cases insertColumn)
        case None
        with some_from no_insert le add_button_from_row_append [OF assms(1) le, of button]
        show ?thesis by (simp add: Let_def)
      next
        case (Some c)
        with some_from no_insert assms(2) have "0 \<le> r" by simp
        with Some some_from no_insert le add_button_from_row_column [OF \<open>0 \<le> r\<close> le, of button c]
        show ?thesis by (simp add: Let_def)
      qed
    qed
  qed
qed

theorem add_button_failures_witness:
  "add_button (7::nat) (Some 5) None None \<lparr>inline_keyboard = [[1, 2], [3]]\<rparr>
     = (Inl IndexError, \<lparr>inline_keyboard = [[1, 2], [3]]\<rparr>)
   \<and> add_button (7::nat) (Some 0) (Some 0) None \<lparr>inline_keyboard = [[1, 2], [3]]\<rparr>
     = (Inl AttributeError, \<lparr>inline_keyboard = [[1, 2], [3]]\<rparr>)
   \<and> add_button (7::nat) (Some (- 3)) None None \<lparr>inline_keyboard = [[1, 2], [3]]\<rparr>
     = (Inr (), \<lparr>inline_keyboard = [[1, 2, 7], [3]]\<rparr>)
   \<and> add_button (7::nat) (Some 1) None (Some (- 2)) \<lparr>inline_keyboard = [[1, 2], [3]]\<rparr>
     = (Inr (), \<lparr>inline_keyboard = [[1, 2], [7, 3]]\<rparr>)
   \<and> add_button (7::nat) None None (Some 1) \<lparr>inline_keyboard = [[1, 2], [3]]\<rparr>
     = (Inr (), \<lparr>inline_keyboard = [[1, 2], [3, 7]]\<rparr>)"
  using
    add_button_failures [of "\<lparr>inline_keyboard = [[1, 2], [3]]\<rparr>" "Some 5" None None "7::nat"]
    add_button_failures [of "\<lparr>inline_keyboard = [[1, 2], [3]]\<rparr>" "Some 0" "Some 0" None "7::nat"]
    add_button_failures [of "\<lparr>inline_keyboard = [[1, 2], [3]]\<rparr>" "Some (- 3)" None None "7::nat"]
    add_button_failures [of "\<lparr>inline_keyboard = [[1, 2], [3]]\<rparr>" "Some 1" None "Some (- 2)" "7::nat"]
    add_button_failures [of "\<lparr>inline_keyboard = [[1, 2], [3]]\<rparr>" None None "Some 1" "7::nat"]
  by (simp add: clamp_to_def put_in_row_def Let_def split: prod.splits)

text \<open>
  C1 as stated fails at two inputs. A keyboard with no rows, which \<open>__init__\<close> builds
  from an empty list: a call with neither \<open>from_row\<close> nor \<open>insert_row\<close> subscripts
  the last row and raises \<open>IndexError\<close>, although neither failure condition of the
  claim holds. And a negative \<open>from_row\<close> below \<open>-len(rows)\<close> together with
  \<open>insert_column\<close>: the subscript \<open>self.inline_keyboard[from_row]\<close> raises
  \<open>IndexError\<close> instead of the index being clamped.
\<close>

theorem add_button_failures_counterexample:
  "add_button (7::nat) None None None (init (Some [])) = (Inl IndexError, init (Some []))
   \<and> add_button (7::nat) (Some (- 5)) None (Some 0) \<lparr>inline_keyboard = [[1]]\<rparr>
       = (Inl IndexError, \<lparr>inline_keyboard = [[1]]\<rparr>)"
  by (simp add: add_button_def init_def subscript_def interval_value_def Let_def)

text \<open>
  C2, as the code has it. \<open>__init__\<close> replaces only an omitted argument by \<open>[[]]\<close>; a
  list that is given is stored as it is, so the rows are non-empty exactly when the given
  list is. \<open>from_button\<close> and \<open>from_row\<close> build one row, \<open>from_column\<close> one row per
  button. \<open>add_button\<close> never removes a row: rows that are non-empty before a call are
  non-empty after it, and a call that returns normally always leaves at least one row.
\<close>

theorem rows_nonempty:
  fixes rows :: "'b list list" and button b :: 'b and button_row button_column :: "'b list"
    and self :: "'b InlineKeyboardMarkup"
  shows
  "inline_keyboard (init None :: 'b InlineKeyboardMarkup) = [[]]
   \<and> inline_keyboard (init (Some rows)) = rows
   \<and> inline_keyboard (from_button button) = [[button]]
   \<and> inline_keyboard (from_row button_row) = [button_row]
   \<and> length (inline_keyboard (from_column button_column)) = length button_column
   \<and> (inline_keyboard self \<noteq> [] \<longrightarrow>
        inline_keyboard (snd (add_button b fr ir ic self)) \<noteq> [])
   \<and> (fst (add_button b fr ir ic self) = Inr () \<longrightarrow>
        inline_keyboard (snd (add_button b fr ir ic self)) \<noteq> [])"
proof -
  have "inline_keyboard self \<noteq> [] \<longrightarrow>
          inline_keyboard (snd (add_button b fr ir ic self)) \<noteq> []"
    using add_button_length_ge [of self b fr ir ic]
    by (cases "inline_keyboard (snd (add_button b fr ir ic self))") simp_all
  moreover have "fst (add_button b fr ir ic self) = Inr () \<longrightarrow>
          inline_keyboard (snd (add_button b fr ir ic self)) \<noteq> []"
    using add_button_returns_nonempty [of b fr ir ic self] by blast
  ultimately show ?thesis
    by (simp add: init_def from_button_def from_row_def from_column_def)
qed

theorem rows_nonempty_witness:
  "inline_keyboard (init None :: nat InlineKeyboardMarkup) = [[]]
   \<and> inline_keyboard (init (Some [[1::nat]])) \<noteq> []
   \<and> inline_keyboard (snd (add_button (7::nat) None None None (init None))) \<noteq> []
   \<and> inline_keyboard (snd (add_button (7::nat) None (Some 3) None (init (Some [])))) \<noteq> []"
proof -
  have a: "inline_keyboard (init None :: nat InlineKeyboardMarkup) \<noteq> []"
    by (simp add: init_def)
  have b: "fst (add_button (7::nat) None (Some 3) None (init (Some []))) = Inr ()"
    by (simp add: add_button_def Let_def)
  from a b
    rows_nonempty [of "[[1::nat]]" 1 "[]" "[]" "init None" 7 None None None]
    rows_nonempty [of "[[1::nat]]" 1 "[]" "[]" "init (Some [])" 7 None "Some 3" None]
  show ?thesis by simp
qed

text \<open>
  The empty sequence of rows that C2 rules out: \<open>InlineKeyboardMarkup([])\<close> and
  \<open>from_column([])\<close> have no row at all.
\<close>

theorem rows_nonempty_counterexample:
  "inline_keyboard (init (Some ([] :: nat list list))) = []
   \<and> inline_keyboard (from_column ([] :: nat list)) = []"
  by (simp add: init_def from_column_def)

text \<open>
  C3 at a negative \<open>from_row\<close>. The row that receives the button is the clamped one, row
  0, but the column is clamped against the length of the row \<open>from_row\<close> itself names,
  counted from the end. On rows \<open>[[1, 2, 3], [4]]\<close> the call
  \<open>add_button(9, from_row=-1, insert_column=100)\<close> bounds the column by the length 1 of
  the last row and puts the button at position 1 of row 0 instead of appending it, and on
  \<open>[[1]]\<close> the call \<open>add_button(9, from_row=-5, insert_column=0)\<close> raises
  \<open>IndexError\<close> from the second subscript.
\<close>

theorem add_button_negative_from_row:
  "add_button (9::nat) (Some (- 1)) None (Some 100) \<lparr>inline_keyboard = [[1, 2, 3], [4]]\<rparr>
     = (Inr (), \<lparr>inline_keyboard = [[1, 9, 2, 3], [4]]\<rparr>)
   \<and> add_button (9::nat) (Some (- 5)) None (Some 0) \<lparr>inline_keyboard = [[1]]\<rparr>
     = (Inl IndexError, \<lparr>inline_keyboard = [[1]]\<rparr>)"
  by (simp add: add_button_def subscript_def interval_value_def list_insert_def Let_def)

text \<open>
  C4. A call \<open>add_button(button, insert_row=i)\<close> with \<open>from_row\<close> unset always returns
  normally. With \<open>k\<close> the value of \<open>i\<close> clamped into \<open>[0, len(rows)]\<close>, the new rows are
  one longer, row \<open>k\<close> is the one-element row \<open>[button]\<close>, the rows before \<open>k\<close> are the
  old ones at the same positions and every old row at a position \<open>j \<ge> k\<close> is now at
  \<open>j + 1\<close>. For \<open>i = 0\<close> the new row is put in front, so the old row 0 becomes row 1.
\<close>

theorem add_button_insert_row:
  "(let rows = inline_keyboard self;
        k = clamp_to (length rows) i;
        (outcome, self') = add_button button None (Some i) insert_column self;
        rows' = inline_keyboard self'
    in outcome = Inr ()
       \<and> rows' = take k rows @ [button] # drop k rows
       \<and> length rows' = length rows + 1
       \<and> rows' ! k = [button]
       \<and> (\<forall>j < k. rows' ! j = rows ! j)
       \<and> (\<forall>j. k \<le> j \<and> j < length rows \<longrightarrow> rows' ! Suc j = rows ! j)
       \<and> (i = 0 \<longrightarrow> rows' = [button] # rows))"
proof -
  define rows where "rows = inline_keyboard self"
  define k where "k = clamp_to (length rows) i"
  define rows' where "rows' = take k rows @ [button] # drop k rows"
  have kle: "k \<le> length rows"
    unfolding k_def by (rule clamp_to_le)
  have call: "add_button button None (Some i) insert_column self
                = (Inr (), self\<lparr>inline_keyboard := rows'\<rparr>)"
    unfolding rows'_def k_def rows_def by (rule add_button_insert_row_eq)
  have len: "length rows' = length rows + 1"
    unfolding rows'_def using kle by simp
  have at_k: "rows' ! k = [button]"
    unfolding rows'_def using kle by (simp add: nth_append)
  have before: "\<forall>j < k. rows' ! j = rows ! j"
    unfolding rows'_def using kle by (simp add: nth_append)
  have after: "\<forall>j. k \<le> j \<and> j < length rows \<longrightarrow> rows' ! Suc j = rows ! j"
  proof (intro allI impI)
    fix j assume j: "k \<le> j \<and> j < length rows"
    then have "Suc j - k = Suc (j - k)" by arith
    with j kle show "rows' ! Suc j = rows ! j"
      unfolding rows'_def by (simp add: nth_append)
  qed
  have front: "i = 0 \<longrightarrow> rows' = [button] # rows"
    unfolding rows'_def k_def by (simp add: clamp_to_def)
  show ?thesis
    using call len at_k before after front
    unfolding Let_def rows_def [symmetric] k_def [symmetric]
    by (simp add: rows'_def)
qed

theorem add_button_insert_row_witness:
  "add_button (7::nat) None (Some 0) None \<lparr>inline_keyboard = [[1, 2], [3]]\<rparr>
     = (Inr (), \<lparr>inline_keyboard = [[7], [1, 2], [3]]\<rparr>)
   \<and> add_button (7::nat) None (Some 99) None \<lparr>inline_keyboard = [[1, 2], [3]]\<rparr>
     = (Inr (), \<lparr>inline_keyboard = [[1, 2], [3], [7]]\<rparr>)
   \<and> add_button (7::nat) None (Some (- 4)) None \<lparr>inline_keyboard = [[1, 2], [3]]\<rparr>
     = (Inr (), \<lparr>inline_keyboard = [[7], [1, 2], [3]]\<rparr>)"
  using add_button_insert_row [of "\<lparr>inline_keyboard = [[1, 2], [3]]\<rparr>" 0 "7::nat" None]
        add_button_insert_row [of "\<lparr>inline_keyboard = [[1, 2], [3]]\<rparr>" 99 "7::nat" None]
        add_button_insert_row [of "\<lparr>inline_keyboard = [[1, 2], [3]]\<rparr>" "- 4" "7::nat" None]
  by (simp add: clamp_to_def Let_def split: prod.splits)

text \<open>
  C5. \<open>a == b\<close> for two keyboards never raises and is true exactly when they have the
  same number of rows, every row has as many buttons as the row at the same index of the
  other, and every button is equal, by the button's own equality, to the button at the
  same row and column of the other. Against an object that is not a keyboard the
  comparison is false.
\<close>

theorem markup_eq_structural:
  fixes a b :: "'b InlineKeyboardMarkup" and x :: 'o
  shows
  "markup_eq beq a (Markup b :: ('b, 'o) comparand) =
     Inr (length (inline_keyboard a) = length (inline_keyboard b)
          \<and> (\<forall>i < length (inline_keyboard a).
                length (inline_keyboard a ! i) = length (inline_keyboard b ! i)
                \<and> (\<forall>j < length (inline_keyboard a ! i).
                      beq (inline_keyboard a ! i ! j) (inline_keyboard b ! i ! j))))
   \<and> markup_eq beq a (Unrelated x) = Inr False"
  unfolding markup_eq_list_all2
  by (simp add: list_all2_conv_all_nth markup_eq_def super_eq_def)

theorem markup_eq_structural_witness:
  "markup_eq (=) \<lparr>inline_keyboard = [[1::nat, 2], [3]]\<rparr>
      (Markup \<lparr>inline_keyboard = [[1, 2], [3]]\<rparr> :: (nat, bool) comparand) = Inr True
   \<and> markup_eq (=) \<lparr>inline_keyboard = [[1::nat, 2], [3]]\<rparr>
      (Markup \<lparr>inline_keyboard = [[1, 2], [4]]\<rparr> :: (nat, bool) comparand) = Inr False
   \<and> markup_eq (=) \<lparr>inline_keyboard = [[1::nat, 2], [3]]\<rparr>
      (Markup \<lparr>inline_keyboard = [[1, 2, 3]]\<rparr> :: (nat, bool) comparand) = Inr False
   \<and> markup_eq (=) \<lparr>inline_keyboard = [[1::nat, 2], [3]]\<rparr>
      (Unrelated True :: (nat, bool) comparand) = Inr False"
proof -
  have nz: "\<not> (\<forall>j::nat. 0 < j)" by auto
  show ?thesis
  using
    markup_eq_structural [of "(=)" "\<lparr>inline_keyboard = [[1::nat, 2], [3]]\<rparr>"
       "\<lparr>inline_keyboard = [[1, 2], [3]]\<rparr>" True]
    markup_eq_structural [of "(=)" "\<lparr>inline_keyboard = [[1::nat, 2], [3]]\<rparr>"
       "\<lparr>inline_keyboard = [[1, 2], [4]]\<rparr>" True]
    markup_eq_structural [of "(=)" "\<lparr>inline_keyboard = [[1::nat, 2], [3]]\<rparr>"
       "\<lparr>inline_keyboard = [[1, 2, 3]]\<rparr>" True]
  by (simp add: All_less_Suc nz)
qed

text \<open>
  C6. The hash of a keyboard is computed from the rows as they are at the call: it is the
  tuple hash of the row hashes in row order, each row hash the tuple hash of the hashes of
  the row's buttons in column order. So it depends on nothing but the nested sequence of
  button hashes, and when the tuple hash is injective it tells apart any two keyboards
  whose nested sequences of button hashes differ. When the button's hash agrees with the
  button's equality, two keyboards that compare equal have the same hash.
\<close>

theorem markup_hash_consistent:
  fixes a b :: "'b InlineKeyboardMarkup"
  shows
    "markup_hash tuple_hash button_hash a
       = tuple_hash (map (\<lambda>row. tuple_hash (map button_hash row)) (inline_keyboard a))
     \<and> (map (map button_hash) (inline_keyboard a) = map (map button_hash) (inline_keyboard b)
          \<longrightarrow> markup_hash tuple_hash button_hash a = markup_hash tuple_hash button_hash b)
     \<and> ((\<forall>x y. beq x y \<longrightarrow> button_hash x = button_hash y)
          \<and> markup_eq beq a (Markup b :: ('b, 'o) comparand) = Inr True
          \<longrightarrow> markup_hash tuple_hash button_hash a = markup_hash tuple_hash button_hash b)
     \<and> (inj tuple_hash
          \<and> markup_hash tuple_hash button_hash a = markup_hash tuple_hash button_hash b
          \<longrightarrow> map (map button_hash) (inline_keyboard a)
                = map (map button_hash) (inline_keyboard b))"
proof (intro conjI impI)
  show "markup_hash tuple_hash button_hash a
          = tuple_hash (map (\<lambda>row. tuple_hash (map button_hash row)) (inline_keyboard a))"
    by (simp add: markup_hash_def)
next
  assume same: "map (map button_hash) (inline_keyboard a)
                  = map (map button_hash) (inline_keyboard b)"
  have "map (\<lambda>row. tuple_hash (map button_hash row)) rows
          = map tuple_hash (map (map button_hash) rows)" for rows :: "'b list list"
    by (simp add: comp_def)
  with same show "markup_hash tuple_hash button_hash a = markup_hash tuple_hash button_hash b"
    by (simp only: markup_hash_def)
next
  assume h: "(\<forall>x y. beq x y \<longrightarrow> button_hash x = button_hash y)
             \<and> markup_eq beq a (Markup b :: ('b, 'o) comparand) = Inr True"
  then have "list_all2 (list_all2 beq) (inline_keyboard a) (inline_keyboard b)"
    by (simp add: markup_eq_list_all2)
  from list_all2_rows_hash [OF conjunct1 [OF h] this, of tuple_hash]
  show "markup_hash tuple_hash button_hash a = markup_hash tuple_hash button_hash b"
    by (simp add: markup_hash_def)
next
  assume h: "inj tuple_hash
             \<and> markup_hash tuple_hash button_hash a = markup_hash tuple_hash button_hash b"
  then have "map (\<lambda>row. tuple_hash (map button_hash row)) (inline_keyboard a)
               = map (\<lambda>row. tuple_hash (map button_hash row)) (inline_keyboard b)"
    by (auto simp: markup_hash_def dest: injD)
  with h show "map (map button_hash) (inline_keyboard a)
                 = map (map button_hash) (inline_keyboard b)"
    by (intro inj_hash_rows [of tuple_hash]) simp_all
qed

theorem markup_hash_consistent_witness:
  "markup_eq (\<lambda>x y. x mod 10 = y mod 10) \<lparr>inline_keyboard = [[1::nat, 2], [3]]\<rparr>
      (Markup \<lparr>inline_keyboard = [[11, 12], [23]]\<rparr> :: (nat, bool) comparand) = Inr True
   \<and> markup_hash (\<lambda>hs. foldr (\<lambda>h acc. h + 31 * acc) hs 7) (\<lambda>x. int (x mod 10))
         \<lparr>inline_keyboard = [[1::nat, 2], [3]]\<rparr>
       = markup_hash (\<lambda>hs. foldr (\<lambda>h acc. h + 31 * acc) hs 7) (\<lambda>x. int (x mod 10))
         \<lparr>inline_keyboard = [[11, 12], [23]]\<rparr>
   \<and> markup_hash (\<lambda>hs. foldr (\<lambda>h acc. h + 31 * acc) hs 7) int
         \<lparr>inline_keyboard = [[1::nat, 2], [3]]\<rparr> = 20337
   \<and> inj (\<lambda>hs :: int list. int (to_nat hs))
   \<and> markup_hash (\<lambda>hs. int (to_nat hs)) int \<lparr>inline_keyboard = [[1::nat, 2], [3]]\<rparr>
       \<noteq> markup_hash (\<lambda>hs. int (to_nat hs)) int \<lparr>inline_keyboard = [[1::nat, 2], [4]]\<rparr>"
proof -
  let ?beq = "\<lambda>x y :: nat. x mod 10 = y mod 10"
  let ?th = "\<lambda>hs :: int list. foldr (\<lambda>h acc. h + 31 * acc) hs 7"
  have h: "\<forall>x y::nat. x mod 10 = y mod 10 \<longrightarrow> int (x mod 10) = int (y mod 10)" by simp
  have e: "markup_eq ?beq \<lparr>inline_keyboard = [[1::nat, 2], [3]]\<rparr>
      (Markup \<lparr>inline_keyboard = [[11, 12], [23]]\<rparr> :: (nat, bool) comparand) = Inr True"
    by (simp add: markup_eq_def subscript_def)
  have i: "inj (\<lambda>hs :: int list. int (to_nat hs))"
    by (simp add: inj_on_def)
  note t1 = markup_hash_consistent
     [where ?'o = bool and beq = ?beq and button_hash = "\<lambda>x. int (x mod 10)"
        and tuple_hash = ?th and a = "\<lparr>inline_keyboard = [[1::nat, 2], [3]]\<rparr>"
        and b = "\<lparr>inline_keyboard = [[11, 12], [23]]\<rparr>"]
  note t2 = markup_hash_consistent
     [where ?'o = bool and beq = "(=)" and button_hash = int
        and tuple_hash = ?th and a = "\<lparr>inline_keyboard = [[1::nat, 2], [3]]\<rparr>"
        and b = "\<lparr>inline_keyboard = [[1::nat, 2], [3]]\<rparr>"]
  note t3 = markup_hash_consistent
     [where ?'o = bool and beq = "(=)" and button_hash = int
        and tuple_hash = "\<lambda>hs :: int list. int (to_nat hs)"
        and a = "\<lparr>inline_keyboard = [[1::nat, 2], [3]]\<rparr>"
        and b = "\<lparr>inline_keyboard = [[1::nat, 2], [4]]\<rparr>"]
  from t1 h e have c1: "markup_hash ?th (\<lambda>x. int (x mod 10))
         \<lparr>inline_keyboard = [[1::nat, 2], [3]]\<rparr>
       = markup_hash ?th (\<lambda>x. int (x mod 10)) \<lparr>inline_keyboard = [[11, 12], [23]]\<rparr>"
    by blast
  from t2 have c2: "markup_hash ?th int \<lparr>inline_keyboard = [[1::nat, 2], [3]]\<rparr> = 20337"
    by simp
  from t3 i have c3: "markup_hash (\<lambda>hs. int (to_nat hs)) int
         \<lparr>inline_keyboard = [[1::nat, 2], [3]]\<rparr>
       \<noteq> markup_hash (\<lambda>hs. int (to_nat hs)) int \<lparr>inline_keyboard = [[1::nat, 2], [4]]\<rparr>"
    by auto
  from e c1 c2 i c3 show ?thesis by blast
qed

text \<open>
  C7. \<open>to_dict\<close> stores under \<open>inline_keyboard\<close> the serialised buttons row by row
  in their order, whatever the base dict holds. When every button of a keyboard \<open>g\<close>
  deserialises from its own serialised form to a button equal to it, \<open>de_json\<close> of
  \<open>to_dict\<close> of \<open>g\<close> returns a keyboard that compares equal to \<open>g\<close>, with
  either of the two as the left-hand side.
\<close>

theorem de_json_to_dict_round_trip:
  fixes g :: "'b InlineKeyboardMarkup"
  assumes "\<forall>row \<in> set (inline_keyboard g). \<forall>b \<in> set row.
             (case button_de_json (button_to_dict b) of
                Some b' \<Rightarrow> beq b b' \<and> beq b' b
              | None \<Rightarrow> False)"
  shows "map_of (to_dict button_to_dict super_to_dict g) ''inline_keyboard''
           = Some (map (map button_to_dict) (inline_keyboard g))
         \<and> (case de_json button_de_json (Some (to_dict button_to_dict super_to_dict g)) of
               Inr (Some g') \<Rightarrow>
                 markup_eq beq g' (Markup g :: ('b, 'o) comparand) = Inr True
                 \<and> markup_eq beq g (Markup g' :: ('b, 'o) comparand) = Inr True
             | _ \<Rightarrow> False)"
proof -
  let ?rows = "inline_keyboard g"
  let ?rows' = "map (List.map_filter button_de_json) (map (map button_to_dict) ?rows)"
  let ?g' = "\<lparr>inline_keyboard = ?rows'\<rparr>"
  have parsed: "de_json button_de_json (Some (to_dict button_to_dict super_to_dict g))
                  = Inr (Some ?g')"
    by (rule de_json_present) (rule map_of_to_dict)
  have fwd: "\<forall>row \<in> set ?rows. \<forall>b \<in> set row.
                 (case button_de_json (button_to_dict b) of Some b' \<Rightarrow> beq b b' | None \<Rightarrow> False)"
    and bwd: "\<forall>row \<in> set ?rows. \<forall>b \<in> set row.
                 (case button_de_json (button_to_dict b) of Some b' \<Rightarrow> beq b' b | None \<Rightarrow> False)"
    using assms by (auto split: option.splits)
  have "list_all2 (list_all2 beq) ?rows ?rows'"
    using fwd by (simp add: list_all2_map2 list_all2_same round_trip_row)
  then have eq1: "markup_eq beq g (Markup ?g' :: ('b, 'o) comparand) = Inr True"
    by (simp add: markup_eq_list_all2)
  have "list_all2 (list_all2 beq) ?rows' ?rows"
    using bwd by (simp add: list_all2_map1 list_all2_same round_trip_row_back)
  then have eq2: "markup_eq beq ?g' (Markup g :: ('b, 'o) comparand) = Inr True"
    by (simp add: markup_eq_list_all2)
  from parsed eq1 eq2 show ?thesis by (simp add: map_of_to_dict)
qed

theorem de_json_to_dict_round_trip_witness:
  "(case de_json (\<lambda>j. if j < 0 then None else Some (nat j))
          (Some (to_dict int [(''other'', [])] \<lparr>inline_keyboard = [[1::nat, 2], [3]]\<rparr>)) of
      Inr (Some g') \<Rightarrow>
        markup_eq (=) g' (Markup \<lparr>inline_keyboard = [[1::nat, 2], [3]]\<rparr> :: (nat, bool) comparand)
          = Inr True
        \<and> markup_eq (=) \<lparr>inline_keyboard = [[1::nat, 2], [3]]\<rparr>
          (Markup g' :: (nat, bool) comparand) = Inr True
    | _ \<Rightarrow> False)"
proof -
  have h: "\<forall>row \<in> set (inline_keyboard \<lparr>inline_keyboard = [[1::nat, 2], [3]]\<rparr>).
             \<forall>b \<in> set row.
               (case (\<lambda>j. if j < 0 then None else Some (nat j)) (int b) of
                  Some b' \<Rightarrow> b = b' \<and> b' = b | None \<Rightarrow> False)"
    by simp
  from de_json_to_dict_round_trip
         [where ?'o = bool and g = "\<lparr>inline_keyboard = [[1::nat, 2], [3]]\<rparr>"
            and button_de_json = "\<lambda>j. if j < 0 then None else Some (nat j)"
            and button_to_dict = int and beq = "(=)"
            and super_to_dict = "[(''other'', [])]", OF h]
  show ?thesis by simp
qed

text \<open>
  C8. \<open>de_json\<close> returns \<open>None\<close> for an absent and for an empty dict. For a dict
  that holds \<open>inline_keyboard\<close> it returns a keyboard with one row per serialised row:
  the entries whose deserialisation gives \<open>None\<close> are left out, all others are
  deserialised and kept in their order, so no entry stops the parse.
\<close>

theorem de_json_skips_malformed:
  "de_json button_de_json None = Inr None
   \<and> de_json button_de_json (Some []) = Inr None
   \<and> (map_of d ''inline_keyboard'' = Some rows \<longrightarrow>
        de_json button_de_json (Some d) =
          Inr (Some \<lparr>inline_keyboard =
                 map (\<lambda>row. map (\<lambda>col. the (button_de_json col))
                                 (filter (\<lambda>col. button_de_json col \<noteq> None) row)) rows\<rparr>))"
proof (intro conjI impI)
  show "de_json button_de_json None = Inr None"
    by (simp add: de_json_def parse_data_def)
  show "de_json button_de_json (Some []) = Inr None"
    by (simp add: de_json_def parse_data_def)
next
  assume present: "map_of d ''inline_keyboard'' = Some rows"
  have "List.map_filter button_de_json
          = (\<lambda>row. map (\<lambda>col. the (button_de_json col))
                         (filter (\<lambda>col. button_de_json col \<noteq> None) row))"
    by (rule ext) (simp add: List.map_filter_def comp_def)
  with de_json_present [OF present, of button_de_json]
  show "de_json button_de_json (Some d) =
          Inr (Some \<lparr>inline_keyboard =
                 map (\<lambda>row. map (\<lambda>col. the (button_de_json col))
                                 (filter (\<lambda>col. button_de_json col \<noteq> None) row)) rows\<rparr>)"
    by (simp only:)
qed

theorem de_json_skips_malformed_witness:
  "de_json (\<lambda>j. if j < 0 then None else Some (nat j))
      (Some [(''inline_keyboard'', [[1, - 2, 3], [- 4], []])])
     = Inr (Some \<lparr>inline_keyboard = [[1, 3], [], []]\<rparr>)"
  using de_json_skips_malformed
          [of "\<lambda>j. if j < 0 then None else Some (nat j)"
              "[(''inline_keyboard'', [[1, - 2, 3], [- 4], []])]" "[[1, - 2, 3], [- 4], []]"]
  by simp

text \<open>
  C9. Merging the rows of \<open>B\<close> into \<open>A\<close> at an insertion index \<open>index \<le> len(A)\<close>:
  the result has the rows of both, the rows of \<open>A\<close> before the index stay where they
  were, the rows of \<open>B\<close> follow from the index on in their order, and every row of
  \<open>A\<close> from the index on is moved down by the number of rows of \<open>B\<close>. Rows are
  moved whole, so the order of the buttons in each row is kept.
\<close>

theorem add_from_markup_contiguous:
  assumes "index \<le> length (inline_keyboard A)"
  shows "(let rows = inline_keyboard A;
              other = inline_keyboard B;
              rows' = inline_keyboard (add_from_markup B index A)
          in length rows' = length rows + length other
             \<and> (\<forall>j < index. rows' ! j = rows ! j)
             \<and> (\<forall>j < length other. rows' ! (index + j) = other ! j)
             \<and> (\<forall>j. index \<le> j \<and> j < length rows \<longrightarrow> rows' ! (length other + j) = rows ! j))"
proof -
  let ?rows = "inline_keyboard A" and ?other = "inline_keyboard B"
  let ?rows' = "take index ?rows @ ?other @ drop index ?rows"
  have len: "length ?rows' = length ?rows + length ?other"
    using assms by simp
  have before: "\<forall>j < index. ?rows' ! j = ?rows ! j"
    using assms by (simp add: nth_append)
  have middle: "\<forall>j < length ?other. ?rows' ! (index + j) = ?other ! j"
    using assms by (simp add: nth_append)
  have after: "\<forall>j. index \<le> j \<and> j < length ?rows \<longrightarrow> ?rows' ! (length ?other + j) = ?rows ! j"
  proof (intro allI impI)
    fix j assume j: "index \<le> j \<and> j < length ?rows"
    then have "length ?other + j - index - length ?other = j - index"
      and "\<not> length ?other + j < index" and "\<not> length ?other + j - index < length ?other"
      by arith+
    with j assms show "?rows' ! (length ?other + j) = ?rows ! j"
      by (simp add: nth_append)
  qed
  from len before middle after show ?thesis
    by (simp add: add_from_markup_def Let_def)
qed

theorem add_from_markup_contiguous_witness:
  "(let rows' = inline_keyboard (add_from_markup \<lparr>inline_keyboard = [[6::nat, 7], [8]]\<rparr> 1
                                   \<lparr>inline_keyboard = [[1, 2], [3], [4, 5]]\<rparr>)
    in length rows' = 5 \<and> rows' ! 0 = [1, 2] \<and> rows' ! 1 = [6, 7] \<and> rows' ! 2 = [8]
       \<and> rows' ! 3 = [3] \<and> rows' ! 4 = [4, 5])"
proof -
  let ?A = "\<lparr>inline_keyboard = [[1::nat, 2], [3], [4, 5]]\<rparr>"
  let ?B = "\<lparr>inline_keyboard = [[6::nat, 7], [8]]\<rparr>"
  have h: "1 \<le> length (inline_keyboard ?A)" by simp
  note t = add_from_markup_contiguous [OF h, of ?B, unfolded Let_def]
  from t have len: "length (inline_keyboard (add_from_markup ?B 1 ?A)) = 5" by simp
  from t have before: "inline_keyboard (add_from_markup ?B 1 ?A) ! 0 = [1, 2]" by simp
  from t have "\<forall>j < 2. inline_keyboard (add_from_markup ?B 1 ?A) ! (1 + j) = [[6, 7], [8]] ! j"
    by simp
  then have middle: "inline_keyboard (add_from_markup ?B 1 ?A) ! 1 = [6, 7]"
    "inline_keyboard (add_from_markup ?B 1 ?A) ! 2 = [8]"
    by (simp_all add: All_less_Suc numeral_2_eq_2)
  from t have "\<forall>j. 1 \<le> j \<and> j < 3 \<longrightarrow>
      inline_keyboard (add_from_markup ?B 1 ?A) ! (2 + j) = [[1, 2], [3], [4, 5]] ! j"
    by simp
  from this [rule_format, of 1] this [rule_format, of 2]
  have after: "inline_keyboard (add_from_markup ?B 1 ?A) ! 3 = [3]"
    "inline_keyboard (add_from_markup ?B 1 ?A) ! 4 = [4, 5]"
    by simp_all
  from len before middle after show ?thesis by (simp add: Let_def)
qed

text \<open>
  C10. On a non-empty dict without the key \<open>inline_keyboard\<close> \<open>de_json\<close> raises
  \<open>KeyError\<close>. It returns, a keyboard or \<open>None\<close>, exactly when the dict is absent,
  empty, or holds the key.
\<close>

theorem de_json_missing_key:
  "(d \<noteq> [] \<and> map_of d ''inline_keyboard'' = None \<longrightarrow>
      de_json button_de_json (Some d) = Inl KeyError)
   \<and> ((\<exists>r. de_json button_de_json (Some d) = Inr r) \<longleftrightarrow>
        d = [] \<or> map_of d ''inline_keyboard'' \<noteq> None)
   \<and> (\<exists>r. de_json button_de_json None = Inr r)"
  by (auto simp: de_json_def parse_data_def split: option.splits)

theorem de_json_missing_key_witness:
  "de_json (\<lambda>j. if j < 0 then None else Some (nat j)) (Some [(''keyboard'', [[1, 2]])])
     = Inl KeyError"
  using de_json_missing_key
          [of "[(''keyboard'', [[1, 2]])]" "\<lambda>j. if j < 0 then None else Some (nat j)"]
  by simp

end
